theory Spec2Isabelle
  imports Main
begin

section \<open>PeopleSync API: the data model\<close>

text \<open>
  The service stores four kinds of documents (the mongoose schemas \<^verbatim>\<open>userSchema\<close>,
  \<^verbatim>\<open>chatSchema\<close>, \<^verbatim>\<open>groupSchema\<close> and \<^verbatim>\<open>messageSchema\<close>). An ObjectId is an
  opaque identifier; it is modelled as a natural number. A field that holds an array of
  references is a list of identifiers: order and duplicates are kept, as in the stored
  array. Where two schemas use the same field name, the name carries the first letter of
  its schema (\<open>c_participants\<close> of a chat, \<open>g_participants\<close> of a group).
  \<open>u_v\<close> and \<open>g_v\<close> are the version key \<^verbatim>\<open>__v\<close> that mongoose keeps in every record.
  Only a \<^verbatim>\<open>save\<close> of a document that was read reads or changes it, and only users and
  groups are saved so; chats and messages carry none.
\<close>

type_synonym oid = nat

record user =
  u_id :: oid
  username :: string
  passwordHash :: string
  connected :: bool
  friends :: "oid list"
  friendRequests :: "oid list"
  groups :: "oid list"
  u_v :: nat

record chat =
  c_id :: oid
  c_participants :: "oid list"
  c_messages :: "oid list"

record group =
  g_id :: oid
  g_name :: string
  g_participants :: "oid list"
  g_messages :: "oid list"
  g_createdAt :: nat
  g_v :: nat

record message =
  m_id :: oid
  m_sender :: oid
  m_content :: string
  m_timestamp :: nat
  m_isRead :: bool
  m_chat :: "oid option"
  m_group :: "oid option"

text \<open>
  The database: one collection per model, each a list of documents in insertion order.
  What a handler takes from outside the database is a parameter of its model: the
  identity \<^verbatim>\<open>req.userId\<close> of the requester, the fields of the request, the
  identifier that \<^verbatim>\<open>new Model(...)\<close> generates and the time of \<^verbatim>\<open>Date.now\<close>.
\<close>

record db =
  db_users :: "user list"
  db_chats :: "chat list"
  db_groups :: "group list"
  db_messages :: "message list"

text \<open>
  The HTTP status a handler answers with when it does not answer 200 or 201:
  400, 403, 404, 409 and 500.
\<close>

datatype error = BadRequest | Forbidden | NotFound | Conflict | Internal

section \<open>The store operations the handlers call\<close>

text \<open>
  \<^verbatim>\<open>Model.findById(id)\<close>: the document with that \<^verbatim>\<open>_id\<close>, or \<^verbatim>\<open>null\<close>.
\<close>

definition findById :: "('a \<Rightarrow> oid) \<Rightarrow> oid \<Rightarrow> 'a list \<Rightarrow> 'a option" where
  "findById idf i xs = find (\<lambda>d. idf d = i) xs"

text \<open>\<^verbatim>\<open>User.findOne({ username })\<close>: the first user with that name, or \<^verbatim>\<open>null\<close>.\<close>

definition findOne_username :: "string \<Rightarrow> user list \<Rightarrow> user option" where
  "findOne_username n us = find (\<lambda>u. username u = n) us"

text \<open>
  \<^verbatim>\<open>doc.save()\<close> on a document made with \<^verbatim>\<open>new Model(...)\<close>: an insert at the end of the
  collection. The store refuses a second document with the same \<^verbatim>\<open>_id\<close> (the save
  throws); \<open>None\<close> is that failure.
\<close>

definition insertDoc :: "('a \<Rightarrow> oid) \<Rightarrow> 'a \<Rightarrow> 'a list \<Rightarrow> 'a list option" where
  "insertDoc idf doc xs =
     (if findById idf (idf doc) xs = None then Some (xs @ [doc]) else None)"

text \<open>
  \<^verbatim>\<open>Model.findByIdAndUpdate(id, update)\<close>: the update applied to the stored record with
  that \<^verbatim>\<open>_id\<close>; nothing happens when there is none.
\<close>

definition findByIdAndUpdate :: "('a \<Rightarrow> oid) \<Rightarrow> oid \<Rightarrow> ('a \<Rightarrow> 'a) \<Rightarrow> 'a list \<Rightarrow> 'a list" where
  "findByIdAndUpdate idf i f xs = map (\<lambda>d. if idf d = i then f d else d) xs"

text \<open>
  \<^verbatim>\<open>User.updateMany({ _id: { $in: ids } }, update)\<close>.
\<close>

definition updateMany_in :: "oid list \<Rightarrow> (user \<Rightarrow> user) \<Rightarrow> user list \<Rightarrow> user list" where
  "updateMany_in ids f us = map (\<lambda>u. if u_id u \<in> set ids then f u else u) us"

text \<open>
  \<^verbatim>\<open>array.includes(id)\<close>, on a mongoose array of ObjectIds as on a plain array of id
  strings: whether the identifier occurs in the array.
\<close>

definition includes_id :: "oid list \<Rightarrow> oid \<Rightarrow> bool" where
  "includes_id xs i = (i \<in> set xs)"

text \<open>
  \<^verbatim>\<open>array.pull(id)\<close> and the update operator \<^verbatim>\<open>$pull\<close>: every occurrence of the identifier
  leaves the array. The same list results from
  \<^verbatim>\<open>array.filter(id => !id.equals(x))\<close>.
\<close>

definition pull :: "oid list \<Rightarrow> oid \<Rightarrow> oid list" where
  "pull xs i = filter (\<lambda>j. j \<noteq> i) xs"

text \<open>
  \<^verbatim>\<open>doc.save()\<close> on a document that was read from the collection. Mongoose does not
  write the document back: it sends the changes that the handler made to the document,
  path by path, and they apply to the record as it is stored at that moment. For an
  array path there are four cases: the handler did not touch it; it assigned a new
  array; it pushed an identifier; it pulled one.
\<close>

datatype change = Unmodified | Assigned "oid list" | Pushed oid | Pulled oid

text \<open>
  An assignment \<^verbatim>\<open>doc.path = array\<close> of an array equal to the one the document holds
  does not mark the path as modified.
\<close>

definition assign :: "oid list \<Rightarrow> oid list \<Rightarrow> change" where
  "assign old new = (if new = old then Unmodified else Assigned new)"

fun apply_change :: "change \<Rightarrow> oid list \<Rightarrow> oid list" where
  "apply_change Unmodified xs = xs"
| "apply_change (Assigned ys) xs = ys"
| "apply_change (Pushed i) xs = xs @ [i]"
| "apply_change (Pulled i) xs = pull xs i"

text \<open>
  A save that changes an array increments the version key of the record. When an array
  was assigned, the update is moreover sent for the version that the document was read
  with: if the stored record has another version by then, nothing is written and the
  save throws a VersionError. A push or a pull is sent without that condition.
\<close>

fun checks_version :: "change \<Rightarrow> bool" where
  "checks_version (Assigned ys) = True"
| "checks_version c = False"

text \<open>
  The save of a user document \<open>doc\<close> on which the handler made the changes \<open>chF\<close> to
  \<^verbatim>\<open>friends\<close> and \<open>chR\<close> to \<^verbatim>\<open>friendRequests\<close>. With no change nothing is sent. \<open>None\<close> is
  a save that throws.
\<close>

definition saveUser :: "user \<Rightarrow> change \<Rightarrow> change \<Rightarrow> user list \<Rightarrow> user list option" where
  "saveUser doc chF chR us =
     (if chF = Unmodified \<and> chR = Unmodified then Some us
      else case findById u_id (u_id doc) us of
        None \<Rightarrow> None
      | Some stored \<Rightarrow>
          if (checks_version chF \<or> checks_version chR) \<and> u_v stored \<noteq> u_v doc then None
          else Some (findByIdAndUpdate u_id (u_id doc)
                 (\<lambda>d. d\<lparr>friends := apply_change chF (friends d),
                        friendRequests := apply_change chR (friendRequests d),
                        u_v := u_v d + 1\<rparr>) us))"

text \<open>
  The save of a group document on which the handler made the change \<open>ch\<close> to
  \<^verbatim>\<open>participants\<close>.
\<close>

definition saveGroup :: "group \<Rightarrow> change \<Rightarrow> group list \<Rightarrow> group list option" where
  "saveGroup doc ch gs =
     (if ch = Unmodified then Some gs
      else case findById g_id (g_id doc) gs of
        None \<Rightarrow> None
      | Some stored \<Rightarrow>
          if checks_version ch \<and> g_v stored \<noteq> g_v doc then None
          else Some (findByIdAndUpdate g_id (g_id doc)
                 (\<lambda>d. d\<lparr>g_participants := apply_change ch (g_participants d),
                        g_v := g_v d + 1\<rparr>) gs))"

section \<open>Group membership: \<^verbatim>\<open>router/groups/index.js\<close>\<close>

text \<open>
  \<^verbatim>\<open>POST /groups/:groupId/users\<close>. The requester \<open>reqUserId\<close> is the identity the JWT
  middleware put on the request. A missing group and a requester outside the group both
  answer 403; a member that is already in the group answers 400. The handler answers
  with the group document it holds: after the save, the document has the pushed member
  and the incremented version. A save that throws is answered with 500.
\<close>

definition addGroupMember :: "oid \<Rightarrow> oid \<Rightarrow> oid \<Rightarrow> db \<Rightarrow> (error + group) \<times> db" where
  "addGroupMember reqUserId groupId userId s =
     (case findById g_id groupId (db_groups s) of
        None \<Rightarrow> (Inl Forbidden, s)
      | Some grp \<Rightarrow>
          if \<not> includes_id (g_participants grp) reqUserId then (Inl Forbidden, s)
          else if \<not> includes_id (g_participants grp) userId then
            (case saveGroup grp (Pushed userId) (db_groups s) of
               None \<Rightarrow> (Inl Internal, s)
             | Some gs \<Rightarrow>
                 let grp' = grp\<lparr>g_participants := g_participants grp @ [userId],
                                 g_v := g_v grp + 1\<rparr>;
                     us = findByIdAndUpdate u_id userId
                            (\<lambda>u. u\<lparr>groups := groups u @ [g_id grp']\<rparr>) (db_users s)
                 in (Inr grp', s\<lparr>db_groups := gs, db_users := us\<rparr>))
          else (Inl BadRequest, s))"

text \<open>\<^verbatim>\<open>DELETE /groups/:groupId/users/:userId\<close>.\<close>

definition removeGroupMember :: "oid \<Rightarrow> oid \<Rightarrow> oid \<Rightarrow> db \<Rightarrow> (error + group) \<times> db" where
  "removeGroupMember reqUserId groupId userId s =
     (case findById g_id groupId (db_groups s) of
        None \<Rightarrow> (Inl Forbidden, s)
      | Some grp \<Rightarrow>
          if \<not> includes_id (g_participants grp) reqUserId then (Inl Forbidden, s)
          else if includes_id (g_participants grp) userId then
            (case saveGroup grp (Pulled userId) (db_groups s) of
               None \<Rightarrow> (Inl Internal, s)
             | Some gs \<Rightarrow>
                 let grp' = grp\<lparr>g_participants := pull (g_participants grp) userId,
                                 g_v := g_v grp + 1\<rparr>;
                     us = findByIdAndUpdate u_id userId
                            (\<lambda>u. u\<lparr>groups := pull (groups u) (g_id grp')\<rparr>) (db_users s)
                 in (Inr grp', s\<lparr>db_groups := gs, db_users := us\<rparr>))
          else (Inl BadRequest, s))"

text \<open>
  \<^verbatim>\<open>POST /groups\<close>. The new group takes the identifier \<open>newId\<close> that
  \<^verbatim>\<open>new Group(...)\<close> generated and the creation time \<open>now\<close>. The schema requires a name:
  the save of a group with an empty name throws, as does an insert the store refuses;
  the handler answers 500 to both.
\<close>

definition createGroup :: "oid \<Rightarrow> nat \<Rightarrow> string \<Rightarrow> oid list \<Rightarrow> db \<Rightarrow> (error + group) \<times> db" where
  "createGroup newId now name participants s =
     (let grp = \<lparr>g_id = newId, g_name = name, g_participants = participants,
                 g_messages = [], g_createdAt = now, g_v = 0\<rparr>
      in if name = [] then (Inl Internal, s)
         else case insertDoc g_id grp (db_groups s) of
           None \<Rightarrow> (Inl Internal, s)
         | Some gs \<Rightarrow>
             (Inr grp,
              s\<lparr>db_groups := gs,
                db_users := updateMany_in participants
                              (\<lambda>u. u\<lparr>groups := groups u @ [g_id grp]\<rparr>) (db_users s)\<rparr>))"

section \<open>Friends: \<^verbatim>\<open>router/users/friends.js\<close>\<close>

text \<open>
  Every handler of this router reads the requester with \<^verbatim>\<open>User.findById(req.userId)\<close> and
  the other user with \<^verbatim>\<open>User.findOne({ username })\<close>, answers 400 to an empty username
  and 404 when no user has that name. A requester that is not stored is \<^verbatim>\<open>null\<close>: the
  first read of one of its fields throws and the handler answers 500. The two reads give
  two documents, also when they are reads of one record (the requester's own username):
  each document has its own changes and its own save. A save that throws is answered
  with 500; what an earlier save of the same handler wrote stays written.
\<close>

text \<open>\<^verbatim>\<open>POST /friends\<close>: a friend request.\<close>

definition sendFriendRequest :: "oid \<Rightarrow> string \<Rightarrow> db \<Rightarrow> (error + string \<times> oid) \<times> db" where
  "sendFriendRequest reqUserId uname s =
     (if uname = [] then (Inl BadRequest, s)
      else
        let usr = findById u_id reqUserId (db_users s);
            frd = findOne_username uname (db_users s)
        in case frd of
             None \<Rightarrow> (Inl NotFound, s)
           | Some friend \<Rightarrow>
               (case usr of
                  None \<Rightarrow> (Inl Internal, s)
                | Some user \<Rightarrow>
                    if includes_id (friends user) (u_id friend) then (Inl Conflict, s)
                    else
                      (case saveUser friend Unmodified (Pushed (u_id user)) (db_users s) of
                         None \<Rightarrow> (Inl Internal, s)
                       | Some us1 \<Rightarrow>
                           (case saveUser user Unmodified Unmodified us1 of
                              None \<Rightarrow> (Inl Internal, s\<lparr>db_users := us1\<rparr>)
                            | Some us2 \<Rightarrow>
                                (Inr (username friend, u_id friend), s\<lparr>db_users := us2\<rparr>)))))"

text \<open>\<^verbatim>\<open>DELETE /friends/:username\<close>.\<close>

definition removeFriend :: "oid \<Rightarrow> string \<Rightarrow> db \<Rightarrow> (error + string \<times> oid) \<times> db" where
  "removeFriend reqUserId uname s =
     (if uname = [] then (Inl BadRequest, s)
      else
        let usr = findById u_id reqUserId (db_users s);
            frd = findOne_username uname (db_users s)
        in case frd of
             None \<Rightarrow> (Inl NotFound, s)
           | Some friend \<Rightarrow>
               (case usr of
                  None \<Rightarrow> (Inl Internal, s)
                | Some user \<Rightarrow>
                    let chUser = assign (friends user) (pull (friends user) (u_id friend));
                        chFriend = assign (friends friend) (pull (friends friend) (u_id user))
                    in case saveUser friend chFriend Unmodified (db_users s) of
                         None \<Rightarrow> (Inl Internal, s)
                       | Some us1 \<Rightarrow>
                           (case saveUser user chUser Unmodified us1 of
                              None \<Rightarrow> (Inl Internal, s\<lparr>db_users := us1\<rparr>)
                            | Some us2 \<Rightarrow>
                                (Inr (username friend, u_id friend), s\<lparr>db_users := us2\<rparr>))))"

text \<open>
  \<^verbatim>\<open>PUT /friends/accept\<close>: the requester's \<^verbatim>\<open>friendRequests\<close> is assigned the array
  without the friend, each of the two is pushed on the other's \<^verbatim>\<open>friends\<close>, the friend is
  saved and then the requester.
\<close>

definition acceptFriendRequest :: "oid \<Rightarrow> string \<Rightarrow> db \<Rightarrow> (error + string \<times> oid) \<times> db" where
  "acceptFriendRequest reqUserId uname s =
     (if uname = [] then (Inl BadRequest, s)
      else
        let usr = findById u_id reqUserId (db_users s);
            frd = findOne_username uname (db_users s)
        in case frd of
             None \<Rightarrow> (Inl NotFound, s)
           | Some friend \<Rightarrow>
               (case usr of
                  None \<Rightarrow> (Inl Internal, s)
                | Some user \<Rightarrow>
                    let chRequests = assign (friendRequests user)
                                       (pull (friendRequests user) (u_id friend))
                    in case saveUser friend (Pushed (u_id user)) Unmodified (db_users s) of
                         None \<Rightarrow> (Inl Internal, s)
                       | Some us1 \<Rightarrow>
                           (case saveUser user (Pushed (u_id friend)) chRequests us1 of
                              None \<Rightarrow> (Inl Internal, s\<lparr>db_users := us1\<rparr>)
                            | Some us2 \<Rightarrow>
                                (Inr (username friend, u_id friend), s\<lparr>db_users := us2\<rparr>))))"

text \<open>\<^verbatim>\<open>PUT /friends/reject\<close>: only the requester is changed and saved.\<close>

definition rejectFriendRequest :: "oid \<Rightarrow> string \<Rightarrow> db \<Rightarrow> (error + string \<times> oid) \<times> db" where
  "rejectFriendRequest reqUserId uname s =
     (if uname = [] then (Inl BadRequest, s)
      else
        let usr = findById u_id reqUserId (db_users s);
            frd = findOne_username uname (db_users s)
        in case frd of
             None \<Rightarrow> (Inl NotFound, s)
           | Some friend \<Rightarrow>
               (case usr of
                  None \<Rightarrow> (Inl Internal, s)
                | Some user \<Rightarrow>
                    let chRequests = assign (friendRequests user)
                                       (pull (friendRequests user) (u_id friend))
                    in case saveUser user Unmodified chRequests (db_users s) of
                         None \<Rightarrow> (Inl Internal, s)
                       | Some us1 \<Rightarrow>
                           (Inr (username friend, u_id friend), s\<lparr>db_users := us1\<rparr>)))"

text \<open>
  \<^verbatim>\<open>populate\<close> of an array of references: each identifier is replaced by the document it
  names, in the array's order; an identifier that names no document is dropped.
\<close>

definition populate_refs :: "('a \<Rightarrow> oid) \<Rightarrow> 'a list \<Rightarrow> oid list \<Rightarrow> 'a list" where
  "populate_refs idf docs ids = List.map_filter (\<lambda>i. findById idf i docs) ids"

text \<open>
  \<^verbatim>\<open>GET /friends\<close>: the identifier and name of every friend and of every sender of a
  pending request. The handler answers 404 for a requester that is not stored.
\<close>

definition listRelationships ::
  "oid \<Rightarrow> db \<Rightarrow> (error + (oid \<times> string) list \<times> (oid \<times> string) list) \<times> db" where
  "listRelationships reqUserId s =
     (case findById u_id reqUserId (db_users s) of
        None \<Rightarrow> (Inl NotFound, s)
      | Some user \<Rightarrow>
          (Inr (map (\<lambda>f. (u_id f, username f)) (populate_refs u_id (db_users s) (friends user)),
                map (\<lambda>f. (u_id f, username f))
                  (populate_refs u_id (db_users s) (friendRequests user))),
           s))"

section \<open>Chats: \<^verbatim>\<open>router/chats/index.js\<close>\<close>

text \<open>
  \<^verbatim>\<open>POST /chats\<close>. The only check is that the requester is in the list of participants;
  the chat is then inserted with that list and no message. \<open>newId\<close> is the identifier
  \<^verbatim>\<open>new Chat(...)\<close> generated.
\<close>

definition createChat :: "oid \<Rightarrow> oid \<Rightarrow> oid list \<Rightarrow> db \<Rightarrow> (error + chat) \<times> db" where
  "createChat newId reqUserId participants s =
     (if \<not> includes_id participants reqUserId then (Inl BadRequest, s)
      else
        let cht = \<lparr>c_id = newId, c_participants = participants, c_messages = []\<rparr>
        in case insertDoc c_id cht (db_chats s) of
             None \<Rightarrow> (Inl Internal, s)
           | Some cs \<Rightarrow> (Inr cht, s\<lparr>db_chats := cs\<rparr>))"

text \<open>
  A message as the read handlers answer it: the stored message with its \<^verbatim>\<open>sender\<close>
  populated, that is the sender's user document, or \<^verbatim>\<open>null\<close> when no user has that
  identifier.
\<close>

record populated_message =
  pm_message :: message
  pm_sender :: "user option"

definition populate_sender :: "user list \<Rightarrow> message \<Rightarrow> populated_message" where
  "populate_sender us m = \<lparr>pm_message = m, pm_sender = findById u_id (m_sender m) us\<rparr>"

text \<open>
  \<^verbatim>\<open>GET /chats/:chatId/messages\<close>: the chat is read with its messages populated, and each
  message with its sender. A missing chat and a requester outside the chat both answer
  403.
\<close>

definition listMessages :: "oid \<Rightarrow> oid \<Rightarrow> db \<Rightarrow> (error + populated_message list) \<times> db" where
  "listMessages reqUserId chatId s =
     (case findById c_id chatId (db_chats s) of
        None \<Rightarrow> (Inl Forbidden, s)
      | Some cht \<Rightarrow>
          if \<not> includes_id (c_participants cht) reqUserId then (Inl Forbidden, s)
          else
            (Inr (map (populate_sender (db_users s))
                    (populate_refs m_id (db_messages s) (c_messages cht))),
             s))"

section \<open>Messages: \<^verbatim>\<open>router/messages/index.js\<close>\<close>

text \<open>
  The answer of \<^verbatim>\<open>POST /messages\<close>: the new message, its sender populated with the
  fields \<^verbatim>\<open>_id\<close> and \<^verbatim>\<open>username\<close>, and the socket room \<^verbatim>\<open>chat || group\<close> the message was
  emitted to.
\<close>

record posted_message =
  sent_message :: message
  sent_sender :: "(oid \<times> string) option"
  sent_room :: "oid option"

text \<open>
  \<^verbatim>\<open>POST /messages\<close>. \<open>chat\<close> and \<open>grp\<close> are the optional fields \<^verbatim>\<open>chat\<close> and \<^verbatim>\<open>group\<close> of
  the body. The handler builds the message from the body as it is and saves it first;
  it then pushes the message on the chat when \<^verbatim>\<open>chat\<close> is given, else on the group when
  \<^verbatim>\<open>group\<close> is given. The schema requires a content: the save of a message with an
  empty content throws, and the handler answers 500.
\<close>

definition postMessage ::
  "oid \<Rightarrow> nat \<Rightarrow> oid \<Rightarrow> string \<Rightarrow> oid option \<Rightarrow> oid option \<Rightarrow> db
     \<Rightarrow> (error + posted_message) \<times> db" where
  "postMessage newId now reqUserId content chat grp s =
     (let msg = \<lparr>m_id = newId, m_sender = reqUserId, m_content = content,
                 m_timestamp = now, m_isRead = False, m_chat = chat, m_group = grp\<rparr>
      in if content = [] then (Inl Internal, s)
         else case insertDoc m_id msg (db_messages s) of
           None \<Rightarrow> (Inl Internal, s)
         | Some ms \<Rightarrow>
             let s1 = s\<lparr>db_messages := ms\<rparr>;
                 s2 = (case chat of
                         Some c \<Rightarrow>
                           s1\<lparr>db_chats := findByIdAndUpdate c_id c
                                (\<lambda>d. d\<lparr>c_messages := c_messages d @ [m_id msg]\<rparr>) (db_chats s1)\<rparr>
                       | None \<Rightarrow>
                           (case grp of
                              Some g \<Rightarrow>
                                s1\<lparr>db_groups := findByIdAndUpdate g_id g
                                     (\<lambda>d. d\<lparr>g_messages := g_messages d @ [m_id msg]\<rparr>)
                                     (db_groups s1)\<rparr>
                            | None \<Rightarrow> s1));
                 sender = map_option (\<lambda>u. (u_id u, username u))
                            (findById u_id (m_sender msg) (db_users s2))
             in (Inr \<lparr>sent_message = msg, sent_sender = sender,
                      sent_room = (case chat of Some c \<Rightarrow> Some c | None \<Rightarrow> grp)\<rparr>,
                 s2))"

text \<open>
  \<^verbatim>\<open>GET /messages/:messageId\<close>: the handler answers with whatever the query returns,
  \<^verbatim>\<open>null\<close> included (the answer \<open>Inr None\<close>, status 200).
\<close>

definition getMessage :: "oid \<Rightarrow> db \<Rightarrow> (error + populated_message option) \<times> db" where
  "getMessage messageId s =
     (Inr (map_option (populate_sender (db_users s)) (findById m_id messageId (db_messages s))),
      s)"

text \<open>
  \<^verbatim>\<open>PUT /messages/:messageId\<close>: \<^verbatim>\<open>isRead\<close> is set on the stored message, and the handler
  answers with the updated message, or with \<^verbatim>\<open>null\<close> when there is none.
\<close>

definition setReadStatus :: "oid \<Rightarrow> bool \<Rightarrow> db \<Rightarrow> (error + message option) \<times> db" where
  "setReadStatus messageId isRead s =
     (let ms = findByIdAndUpdate m_id messageId (\<lambda>m. m\<lparr>m_isRead := isRead\<rparr>) (db_messages s)
      in (Inr (findById m_id messageId ms), s\<lparr>db_messages := ms\<rparr>))"

section \<open>The requests of the service\<close>

text \<open>
  One constructor per route of the routers above, with the parameters of its handler.
  \<open>exec\<close> is the effect of a request on the database.
\<close>

datatype request =
    SendFriendRequest oid string
  | RemoveFriend oid string
  | AcceptFriendRequest oid string
  | RejectFriendRequest oid string
  | ListRelationships oid
  | CreateGroup oid nat string "oid list"
  | AddGroupMember oid oid oid
  | RemoveGroupMember oid oid oid
  | CreateChat oid oid "oid list"
  | ListMessages oid oid
  | PostMessage oid nat oid string "oid option" "oid option"
  | GetMessage oid
  | SetReadStatus oid bool

fun exec :: "request \<Rightarrow> db \<Rightarrow> db" where
  "exec (SendFriendRequest a n) s = snd (sendFriendRequest a n s)"
| "exec (RemoveFriend a n) s = snd (removeFriend a n s)"
| "exec (AcceptFriendRequest a n) s = snd (acceptFriendRequest a n s)"
| "exec (RejectFriendRequest a n) s = snd (rejectFriendRequest a n s)"
| "exec (ListRelationships a) s = snd (listRelationships a s)"
| "exec (CreateGroup i t n ps) s = snd (createGroup i t n ps s)"
| "exec (AddGroupMember a g u) s = snd (addGroupMember a g u s)"
| "exec (RemoveGroupMember a g u) s = snd (removeGroupMember a g u s)"
| "exec (CreateChat i a ps) s = snd (createChat i a ps s)"
| "exec (ListMessages a c) s = snd (listMessages a c s)"
| "exec (PostMessage i t a x c g) s = snd (postMessage i t a x c g s)"
| "exec (GetMessage m) s = snd (getMessage m s)"
| "exec (SetReadStatus m r) s = snd (setReadStatus m r s)"

text \<open>A sequence of requests, served one after the other.\<close>

fun run :: "request list \<Rightarrow> db \<Rightarrow> db" where
  "run [] s = s"
| "run (r # rs) s = run rs (exec r s)"

section \<open>A small database\<close>

text \<open>
  Three users, one chat between the first two, one group of the first two and one
  message in the chat. The first user has three pending friend requests, two of them
  from the second user.
\<close>

definition alice :: user where
  "alice = \<lparr>u_id = 1, username = ''alice'', passwordHash = ''h1'', connected = False,
            friends = [], friendRequests = [2, 3, 2], groups = [20], u_v = 0\<rparr>"

definition bob :: user where
  "bob = \<lparr>u_id = 2, username = ''bob'', passwordHash = ''h2'', connected = False,
          friends = [], friendRequests = [], groups = [20], u_v = 0\<rparr>"

definition carol :: user where
  "carol = \<lparr>u_id = 3, username = ''carol'', passwordHash = ''h3'', connected = False,
            friends = [], friendRequests = [], groups = [], u_v = 0\<rparr>"

definition demo_chat :: chat where
  "demo_chat = \<lparr>c_id = 10, c_participants = [1, 2], c_messages = [30]\<rparr>"

definition demo_group :: group where
  "demo_group = \<lparr>g_id = 20, g_name = ''team'', g_participants = [1, 2], g_messages = [],
                  g_createdAt = 0, g_v = 0\<rparr>"

definition demo_message :: message where
  "demo_message = \<lparr>m_id = 30, m_sender = 1, m_content = ''hi'', m_timestamp = 1,
                    m_isRead = False, m_chat = Some 10, m_group = None\<rparr>"

definition demo_db :: db where
  "demo_db = \<lparr>db_users = [alice, bob, carol], db_chats = [demo_chat],
               db_groups = [demo_group], db_messages = [demo_message]\<rparr>"

lemmas demo_defs =
  demo_db_def alice_def bob_def carol_def demo_chat_def demo_group_def demo_message_def

section \<open>Facts about the store operations\<close>

lemma findById_Some_id: "findById idf i xs = Some d \<Longrightarrow> idf d = i"
  by (auto simp: findById_def find_Some_iff)

lemma findById_findByIdAndUpdate:
  "(\<And>d. idf (f d) = idf d) \<Longrightarrow>
   findById idf j (findByIdAndUpdate idf i f xs) =
     map_option (\<lambda>d. if idf d = i then f d else d) (findById idf j xs)"
  by (induction xs) (auto simp: findById_def findByIdAndUpdate_def)

lemma findById_append:
  "findById idf i (xs @ ys) =
     (case findById idf i xs of None \<Rightarrow> findById idf i ys | Some d \<Rightarrow> Some d)"
  by (induction xs) (auto simp: findById_def)

lemma findById_insertDoc:
  "insertDoc idf doc xs = Some ys \<Longrightarrow> findById idf i xs = Some d \<Longrightarrow>
   findById idf i ys = Some d"
  by (auto simp: insertDoc_def findById_append split: if_splits)

lemma findById_single: "findById idf i [d] = (if idf d = i then Some d else None)"
  by (simp add: findById_def)

lemma findById_mem_not_None: "d \<in> set xs \<Longrightarrow> findById idf (idf d) xs \<noteq> None"
  by (auto simp: findById_def find_None_iff)

lemma findOne_username_Some:
  "findOne_username n us = Some u \<Longrightarrow> u \<in> set us \<and> username u = n"
  by (auto simp: findOne_username_def find_Some_iff)


text \<open>Changes of an array path.\<close>

lemma apply_assign: "apply_change (assign old new) old = new"
  by (simp add: assign_def)



lemma saveUser_Some:
  assumes "saveUser doc chF chR us = Some us'" and "chF \<noteq> Unmodified \<or> chR \<noteq> Unmodified"
  shows "us' = findByIdAndUpdate u_id (u_id doc)
                 (\<lambda>d. d\<lparr>friends := apply_change chF (friends d),
                        friendRequests := apply_change chR (friendRequests d),
                        u_v := u_v d + 1\<rparr>) us"
  using assms by (auto simp: saveUser_def split: option.splits if_splits)

lemma saveGroup_read:
  assumes "findById g_id i gs = Some doc" and "ch \<noteq> Unmodified"
  shows "saveGroup doc ch gs =
           Some (findByIdAndUpdate g_id i
                 (\<lambda>d. d\<lparr>g_participants := apply_change ch (g_participants d),
                        g_v := g_v d + 1\<rparr>) gs)"
  using assms findById_Some_id [OF assms(1)] by (simp add: saveGroup_def)

text \<open>Populated references: their order, and where they come from.\<close>

lemma map_id_populate_refs:
  "map idf (populate_refs idf docs ids) = filter (\<lambda>i. findById idf i docs \<noteq> None) ids"
  by (induction ids) (auto simp: populate_refs_def dest: findById_Some_id)

lemma populate_refs_stored:
  "d \<in> set (populate_refs idf docs ids) \<Longrightarrow> findById idf (idf d) docs = Some d"
  by (induction ids) (auto simp: populate_refs_def dest: findById_Some_id split: option.splits)

lemma populate_refs_append:
  "populate_refs idf docs (xs @ ys) = populate_refs idf docs xs @ populate_refs idf docs ys"
  by (simp add: populate_refs_def List.map_filter_def)

lemma populate_refs_new_doc:
  assumes "findById idf (idf doc) docs = None" and "idf doc \<notin> set ids"
  shows "populate_refs idf (docs @ [doc]) ids = populate_refs idf docs ids"
  using assms(2)
proof (induction ids)
  case Nil
  show ?case by (simp add: populate_refs_def)
next
  case (Cons i ids)
  have "findById idf i (docs @ [doc]) = findById idf i docs"
    using Cons.prems by (auto simp: findById_append findById_single split: option.splits)
  then show ?case
    using Cons by (simp add: populate_refs_def split: option.splits)
qed

section \<open>Posting a message\<close>

text \<open>
  Claim C1 (destination exclusivity): a \<^verbatim>\<open>postMessage\<close> with both a chat and a group, or
  with neither, fails with BadRequest and persists no message. The handler has no such
  check, although its own route documentation announces the answer 400 ("Either chat or
  group must be provided, but not both"). On the small database, a post with both
  destinations answers 201 with the message, which is stored and pushed on the chat
  alone; a post with no destination does not answer 400 either and stores the message
  as well.
\<close>

theorem postMessage_without_exclusive_destination:
  "postMessage 31 5 1 ''hello'' (Some 10) (Some 20) demo_db =
     (Inr \<lparr>sent_message =
             \<lparr>m_id = 31, m_sender = 1, m_content = ''hello'', m_timestamp = 5,
              m_isRead = False, m_chat = Some 10, m_group = Some 20\<rparr>,
           sent_sender = Some (1, ''alice''), sent_room = Some 10\<rparr>,
      demo_db\<lparr>db_messages :=
                [demo_message,
                 \<lparr>m_id = 31, m_sender = 1, m_content = ''hello'', m_timestamp = 5,
                  m_isRead = False, m_chat = Some 10, m_group = Some 20\<rparr>],
              db_chats := [demo_chat\<lparr>c_messages := [30, 31]\<rparr>]\<rparr>) \<and>
   fst (postMessage 31 5 1 ''hello'' None None demo_db) \<noteq> Inl BadRequest \<and>
   db_messages (snd (postMessage 31 5 1 ''hello'' None None demo_db)) =
     [demo_message,
      \<lparr>m_id = 31, m_sender = 1, m_content = ''hello'', m_timestamp = 5,
       m_isRead = False, m_chat = None, m_group = None\<rparr>]"
  by (simp add: postMessage_def insertDoc_def findById_def findByIdAndUpdate_def Let_def
      demo_defs)

section \<open>Creating a chat\<close>

text \<open>
  Claim C4: \<^verbatim>\<open>createChat\<close> fails with BadRequest when the requester is not in the list of
  participants, and when the list has fewer than two distinct participants. The second
  half does not hold: the handler never counts the participants. A requester alone in
  the list gets a chat of one.
\<close>

theorem createChat_of_one_participant:
  "card (set [1::oid]) < 2 \<and>
   createChat 11 1 [1] demo_db =
     (Inr \<lparr>c_id = 11, c_participants = [1], c_messages = []\<rparr>,
      demo_db\<lparr>db_chats := [demo_chat, \<lparr>c_id = 11, c_participants = [1], c_messages = []\<rparr>]\<rparr>)"
  by (simp add: createChat_def includes_id_def insertDoc_def findById_def Let_def demo_defs)

text \<open>
  Claim C4, as amended: \<^verbatim>\<open>createChat\<close> fails with BadRequest when the requester is not in
  the list of participants; otherwise, whatever the number of distinct participants, it
  creates a chat with exactly that list and no message under the new identifier, and
  the chat is stored at the end of the collection, where a look-up finds it.
\<close>

theorem createChat_checks_requester_only:
  "(reqUserId \<notin> set participants \<longrightarrow>
      createChat newId reqUserId participants s = (Inl BadRequest, s)) \<and>
   (reqUserId \<in> set participants \<and> findById c_id newId (db_chats s) = None \<longrightarrow>
      createChat newId reqUserId participants s =
        (Inr \<lparr>c_id = newId, c_participants = participants, c_messages = []\<rparr>,
         s\<lparr>db_chats :=
             db_chats s @ [\<lparr>c_id = newId, c_participants = participants, c_messages = []\<rparr>]\<rparr>) \<and>
      findById c_id newId
        (db_chats s @ [\<lparr>c_id = newId, c_participants = participants, c_messages = []\<rparr>]) =
        Some \<lparr>c_id = newId, c_participants = participants, c_messages = []\<rparr>)"
  by (simp add: createChat_def includes_id_def insertDoc_def findById_append Let_def)
     (simp add: findById_def)

theorem createChat_checks_requester_only_witness:
  "3 \<notin> set [1, 2::oid] \<and>
   createChat 11 3 [1, 2] demo_db = (Inl BadRequest, demo_db) \<and>
   1 \<in> set [1::oid] \<and> findById c_id 11 (db_chats demo_db) = None \<and>
   createChat 11 1 [1] demo_db =
     (Inr \<lparr>c_id = 11, c_participants = [1], c_messages = []\<rparr>,
      demo_db\<lparr>db_chats :=
                db_chats demo_db @ [\<lparr>c_id = 11, c_participants = [1], c_messages = []\<rparr>]\<rparr>) \<and>
   findById c_id 11
     (db_chats demo_db @ [\<lparr>c_id = 11, c_participants = [1], c_messages = []\<rparr>]) =
     Some \<lparr>c_id = 11, c_participants = [1], c_messages = []\<rparr>"
proof -
  have h: "findById c_id 11 (db_chats demo_db) = None"
    by (simp add: findById_def demo_defs)
  show ?thesis
    using h createChat_checks_requester_only [of 3 "[1, 2]" 11 demo_db]
      createChat_checks_requester_only [of 1 "[1]" 11 demo_db]
    by simp
qed

section \<open>Group membership\<close>

text \<open>
  Claim C5 (group authorization): for every group and every requester who is not a
  participant of it, \<^verbatim>\<open>addGroupMember\<close> and \<^verbatim>\<open>removeGroupMember\<close> both fail with
  Forbidden and change nothing: the database after the call is the database before it,
  so the participants of the group are the same.
\<close>

theorem group_change_by_outsider_forbidden:
  assumes "findById g_id groupId (db_groups s) = Some grp"
    and "reqUserId \<notin> set (g_participants grp)"
  shows "addGroupMember reqUserId groupId userId s = (Inl Forbidden, s) \<and>
         removeGroupMember reqUserId groupId userId s = (Inl Forbidden, s)"
  using assms by (simp add: addGroupMember_def removeGroupMember_def includes_id_def)

theorem group_change_by_outsider_forbidden_witness:
  "findById g_id 20 (db_groups demo_db) = Some demo_group \<and>
   3 \<notin> set (g_participants demo_group) \<and>
   addGroupMember 3 20 3 demo_db = (Inl Forbidden, demo_db) \<and>
   removeGroupMember 3 20 1 demo_db = (Inl Forbidden, demo_db)"
proof -
  have h1: "findById g_id 20 (db_groups demo_db) = Some demo_group"
    by (simp add: findById_def demo_defs)
  have h2: "3 \<notin> set (g_participants demo_group)"
    by (simp add: demo_defs)
  show ?thesis
    using h1 h2 group_change_by_outsider_forbidden [OF h1 h2, of 3]
      group_change_by_outsider_forbidden [OF h1 h2, of 1]
    by simp
qed

text \<open>
  Claim C6: a participant of a group cannot remove themselves. The handler only asks
  that the requester is a participant and that the user to remove is one; it never
  compares the two. On the small database the first user removes themselves from the
  group: the answer is the group without them, and that group is stored.
\<close>

theorem member_removes_self_example:
  "findById g_id 20 (db_groups demo_db) = Some demo_group \<and>
   1 \<in> set (g_participants demo_group) \<and>
   fst (removeGroupMember 1 20 1 demo_db) =
     Inr (demo_group\<lparr>g_participants := [2], g_v := 1\<rparr>) \<and>
   findById g_id 20 (db_groups (snd (removeGroupMember 1 20 1 demo_db))) =
     Some (demo_group\<lparr>g_participants := [2], g_v := 1\<rparr>)"
  by (simp add: removeGroupMember_def findById_def includes_id_def pull_def saveGroup_def
      findByIdAndUpdate_def Let_def demo_defs)

text \<open>
  Claim C6, as amended: for every group and every user who is a participant of it, the
  user's call of \<^verbatim>\<open>removeGroupMember\<close> on themselves succeeds; the group it answers with
  and stores has the participants of before without any occurrence of that user.
\<close>

theorem member_removes_self:
  assumes "findById g_id groupId (db_groups s) = Some grp"
    and "u \<in> set (g_participants grp)"
  shows "\<exists>grp' s'. removeGroupMember u groupId u s = (Inr grp', s') \<and>
           g_participants grp' = pull (g_participants grp) u \<and>
           u \<notin> set (g_participants grp') \<and>
           findById g_id groupId (db_groups s') = Some grp'"
proof -
  let ?g = "grp\<lparr>g_participants := pull (g_participants grp) u, g_v := g_v grp + 1\<rparr>"
  let ?gs = "findByIdAndUpdate g_id groupId
               (\<lambda>d. d\<lparr>g_participants := apply_change (Pulled u) (g_participants d),
                      g_v := g_v d + 1\<rparr>) (db_groups s)"
  have gid: "g_id grp = groupId"
    using assms(1) by (rule findById_Some_id)
  have saved: "saveGroup grp (Pulled u) (db_groups s) = Some ?gs"
    using assms(1) by (simp add: saveGroup_read)
  have "findById g_id groupId ?gs = Some ?g"
    using assms(1) gid by (simp add: findById_findByIdAndUpdate)
  moreover have "u \<notin> set (g_participants ?g)"
    by (simp add: pull_def)
  ultimately show ?thesis
    using assms saved by (simp add: removeGroupMember_def includes_id_def Let_def)
qed

theorem member_removes_self_witness:
  "findById g_id 20 (db_groups demo_db) = Some demo_group \<and>
   2 \<in> set (g_participants demo_group) \<and>
   (\<exists>grp' s'. removeGroupMember 2 20 2 demo_db = (Inr grp', s') \<and>
      g_participants grp' = pull (g_participants demo_group) 2 \<and>
      2 \<notin> set (g_participants grp') \<and>
      findById g_id 20 (db_groups s') = Some grp')"
proof -
  have h1: "findById g_id 20 (db_groups demo_db) = Some demo_group"
    by (simp add: findById_def demo_defs)
  have h2: "2 \<in> set (g_participants demo_group)"
    by (simp add: demo_defs)
  show ?thesis using h1 h2 member_removes_self [OF h1 h2] by simp
qed

section \<open>Reading one message\<close>

text \<open>
  Claim C9: \<^verbatim>\<open>getMessage\<close> fails with NotFound for an identifier that names no stored
  message. The handler sends the result of the query as it is: for an identifier that
  names nothing, the answer is \<^verbatim>\<open>null\<close> with status 200, not the 404 that the route
  documentation announces.
\<close>

theorem getMessage_absent_answers_null:
  "findById m_id 99 (db_messages demo_db) = None \<and>
   getMessage 99 demo_db = (Inr None, demo_db)"
  by (simp add: getMessage_def findById_def demo_defs)

section \<open>Listing the messages of a chat\<close>

text \<open>
  A message posted to a chat comes last in the next listing of that chat: the listing
  after the post is the listing before it followed by the new message, with its sender
  populated. The new identifier is one that the chat does not refer to yet.
\<close>

lemma listMessages_after_postMessage:
  assumes post: "postMessage newId now b content (Some chatId) g s = (Inr pm, s')"
    and list: "listMessages a chatId s = (Inr ms, s)"
    and chat: "findById c_id chatId (db_chats s) = Some cht"
    and fresh: "newId \<notin> set (c_messages cht)"
  shows "listMessages a chatId s' =
           (Inr (ms @ [populate_sender (db_users s) (sent_message pm)]), s')"
proof -
  let ?msg = "\<lparr>m_id = newId, m_sender = b, m_content = content, m_timestamp = now,
               m_isRead = False, m_chat = Some chatId, m_group = g\<rparr>"
  from post have new: "findById m_id newId (db_messages s) = None"
    by (auto simp: postMessage_def insertDoc_def Let_def split: if_splits)
  with post have pm: "sent_message pm = ?msg"
    and s': "s' = s\<lparr>db_messages := db_messages s @ [?msg],
                    db_chats := findByIdAndUpdate c_id chatId
                      (\<lambda>d. d\<lparr>c_messages := c_messages d @ [newId]\<rparr>) (db_chats s)\<rparr>"
    by (auto simp: postMessage_def insertDoc_def Let_def split: if_splits)
  have cid: "c_id cht = chatId"
    using chat by (rule findById_Some_id)
  from list chat have mem: "a \<in> set (c_participants cht)"
    and ms: "ms = map (populate_sender (db_users s))
                   (populate_refs m_id (db_messages s) (c_messages cht))"
    by (auto simp: listMessages_def includes_id_def split: if_splits)
  have chat': "findById c_id chatId (db_chats s') =
                 Some (cht\<lparr>c_messages := c_messages cht @ [newId]\<rparr>)"
    using chat cid by (simp add: s' findById_findByIdAndUpdate)
  have "populate_refs m_id (db_messages s @ [?msg]) (c_messages cht @ [newId]) =
          populate_refs m_id (db_messages s) (c_messages cht) @ [?msg]"
    using new fresh populate_refs_new_doc [of m_id ?msg "db_messages s" "c_messages cht"]
    by (simp add: populate_refs_append)
       (simp add: populate_refs_def findById_append findById_single)
  then show ?thesis
    using chat' mem by (simp add: listMessages_def includes_id_def ms pm) (simp add: s')
qed

text \<open>
  Claim C3: \<^verbatim>\<open>listMessages\<close> fails with Forbidden when the requester is not a
  participant of the chat, fails with NotFound when the chat is absent, and otherwise
  returns the messages of the chat in append order, each with its sender. The handler
  does not meet the middle part, although its own route documentation announces the
  answer 404 ("The specified chat does not exist"): one guard covers the absent chat
  and the requester outside the chat, and it answers 403. On the small database, no
  chat has the identifier 99, and the answer is Forbidden.
\<close>

theorem listMessages_absent_chat_forbidden:
  "findById c_id 99 (db_chats demo_db) = None \<and>
   listMessages 1 99 demo_db = (Inl Forbidden, demo_db) \<and>
   fst (listMessages 1 99 demo_db) \<noteq> Inl NotFound"
  by (simp add: listMessages_def findById_def demo_defs)

text \<open>
  For a chat that is stored, the handler does what is asked of it. A requester who is
  not among the participants gets Forbidden, and nothing changes. A participant gets
  the stored messages that the chat's message sequence refers to, in the order of that
  sequence, each being the stored message with the sender's user record; and a message
  that \<^verbatim>\<open>postMessage\<close> adds to the chat comes last in the next listing.
\<close>

lemma listMessages_of_stored_chat:
  assumes chat: "findById c_id chatId (db_chats s) = Some cht"
  shows "(a \<notin> set (c_participants cht) \<longrightarrow> listMessages a chatId s = (Inl Forbidden, s)) \<and>
   (a \<in> set (c_participants cht) \<longrightarrow>
      (\<exists>ms. listMessages a chatId s = (Inr ms, s) \<and>
         map (\<lambda>p. m_id (pm_message p)) ms =
           filter (\<lambda>i. findById m_id i (db_messages s) \<noteq> None) (c_messages cht) \<and>
         (\<forall>p \<in> set ms.
            findById m_id (m_id (pm_message p)) (db_messages s) = Some (pm_message p) \<and>
            pm_sender p = findById u_id (m_sender (pm_message p)) (db_users s)))) \<and>
   (newId \<notin> set (c_messages cht) \<and> listMessages a chatId s = (Inr ms0, s) \<and>
    postMessage newId now b content (Some chatId) g s = (Inr pm, s') \<longrightarrow>
      listMessages a chatId s' =
        (Inr (ms0 @ [populate_sender (db_users s) (sent_message pm)]), s'))"
proof -
  let ?ms = "populate_refs m_id (db_messages s) (c_messages cht)"
  have "map (\<lambda>p. m_id (pm_message p)) (map (populate_sender (db_users s)) ?ms) =
          filter (\<lambda>i. findById m_id i (db_messages s) \<noteq> None) (c_messages cht)"
    using map_id_populate_refs [of m_id "db_messages s" "c_messages cht"]
    by (simp add: populate_sender_def comp_def)
  moreover have "\<forall>p \<in> set (map (populate_sender (db_users s)) ?ms).
            findById m_id (m_id (pm_message p)) (db_messages s) = Some (pm_message p) \<and>
            pm_sender p = findById u_id (m_sender (pm_message p)) (db_users s)"
    by (auto simp: populate_sender_def dest: populate_refs_stored)
  ultimately have two:
    "(a \<notin> set (c_participants cht) \<longrightarrow> listMessages a chatId s = (Inl Forbidden, s)) \<and>
   (a \<in> set (c_participants cht) \<longrightarrow>
      (\<exists>ms. listMessages a chatId s = (Inr ms, s) \<and>
         map (\<lambda>p. m_id (pm_message p)) ms =
           filter (\<lambda>i. findById m_id i (db_messages s) \<noteq> None) (c_messages cht) \<and>
         (\<forall>p \<in> set ms.
            findById m_id (m_id (pm_message p)) (db_messages s) = Some (pm_message p) \<and>
            pm_sender p = findById u_id (m_sender (pm_message p)) (db_users s))))"
    using chat by (simp add: listMessages_def includes_id_def)
  have "listMessages a chatId s' =
        (Inr (ms0 @ [populate_sender (db_users s) (sent_message pm)]), s')"
    if "newId \<notin> set (c_messages cht)" "listMessages a chatId s = (Inr ms0, s)"
      "postMessage newId now b content (Some chatId) g s = (Inr pm, s')"
    using listMessages_after_postMessage [OF that(3) that(2) chat that(1)] .
  with two show ?thesis by blast
qed

section \<open>Accepting and rejecting friend requests\<close>

text \<open>
  A successful accept is two successful saves, and the users after it are the users
  before it with the two updates applied, the friend's first.
\<close>

lemma acceptFriendRequest_success:
  assumes acc: "acceptFriendRequest a uname s = (Inr r, s')"
    and A: "findById u_id a (db_users s) = Some A"
    and B: "findOne_username uname (db_users s) = Some B"
  shows "db_users s' =
           findByIdAndUpdate u_id (u_id A)
             (\<lambda>d. d\<lparr>friends := friends d @ [u_id B],
                    friendRequests :=
                      apply_change (assign (friendRequests A) (pull (friendRequests A) (u_id B)))
                        (friendRequests d),
                    u_v := u_v d + 1\<rparr>)
             (findByIdAndUpdate u_id (u_id B)
                (\<lambda>d. d\<lparr>friends := friends d @ [u_id A], u_v := u_v d + 1\<rparr>) (db_users s))"
proof -
  let ?ch = "assign (friendRequests A) (pull (friendRequests A) (u_id B))"
  from acc A B obtain us1 where
    s1: "saveUser B (Pushed (u_id A)) Unmodified (db_users s) = Some us1"
    and s2: "saveUser A (Pushed (u_id B)) ?ch us1 = Some (db_users s')"
    by (auto simp: acceptFriendRequest_def Let_def split: if_splits option.splits)
  from saveUser_Some [OF s1] saveUser_Some [OF s2] show ?thesis
    by simp
qed

lemma rejectFriendRequest_success:
  assumes rej: "rejectFriendRequest a uname s = (Inr r, s')"
    and A: "findById u_id a (db_users s) = Some A"
    and B: "findOne_username uname (db_users s) = Some B"
  shows "saveUser A Unmodified (assign (friendRequests A) (pull (friendRequests A) (u_id B)))
           (db_users s) = Some (db_users s')"
  using assms
  by (auto simp: rejectFriendRequest_def Let_def split: if_splits option.splits)

text \<open>
  Claim C2 (friendship symmetry): for all users A and B, after
  \<^verbatim>\<open>acceptFriendRequest(A, B.username)\<close> succeeds, B is in the friends of A and A is in the
  friends of B, and both records are persisted: the records that the database holds
  for A and for B after the call have these friends. A is the record of the requester
  and B the record that the username names.
\<close>

theorem accept_links_both_friends:
  assumes acc: "acceptFriendRequest a uname s = (Inr r, s')"
    and A: "findById u_id a (db_users s) = Some A"
    and B: "findOne_username uname (db_users s) = Some B"
  shows "\<exists>A' B'. findById u_id (u_id A) (db_users s') = Some A' \<and>
           findById u_id (u_id B) (db_users s') = Some B' \<and>
           u_id B \<in> set (friends A') \<and> u_id A \<in> set (friends B')"
proof -
  have ida: "u_id A = a"
    using A by (rule findById_Some_id)
  from findOne_username_Some [OF B] obtain B0 where
    B0: "findById u_id (u_id B) (db_users s) = Some B0"
    using findById_mem_not_None [of B "db_users s" u_id] by auto
  note s' = acceptFriendRequest_success [OF acc A B]
  have "\<exists>A'. findById u_id (u_id A) (db_users s') = Some A' \<and> u_id B \<in> set (friends A')"
    using A ida by (simp add: s' findById_findByIdAndUpdate)
  moreover
  have "\<exists>B'. findById u_id (u_id B) (db_users s') = Some B' \<and> u_id A \<in> set (friends B')"
    using B0 findById_Some_id [OF B0] by (simp add: s' findById_findByIdAndUpdate)
  ultimately show ?thesis
    by blast
qed

theorem accept_links_both_friends_witness:
  "acceptFriendRequest 1 ''bob'' demo_db =
     (Inr (''bob'', 2), snd (acceptFriendRequest 1 ''bob'' demo_db)) \<and>
   findById u_id 1 (db_users demo_db) = Some alice \<and>
   findOne_username ''bob'' (db_users demo_db) = Some bob \<and>
   (\<exists>A' B'.
      findById u_id 1 (db_users (snd (acceptFriendRequest 1 ''bob'' demo_db))) = Some A' \<and>
      findById u_id 2 (db_users (snd (acceptFriendRequest 1 ''bob'' demo_db))) = Some B' \<and>
      2 \<in> set (friends A') \<and> 1 \<in> set (friends B'))"
proof -
  have "fst (acceptFriendRequest 1 ''bob'' demo_db) = Inr (''bob'', 2)"
    by (simp add: acceptFriendRequest_def findById_def findOne_username_def saveUser_def
        findByIdAndUpdate_def assign_def pull_def Let_def demo_defs)
  then have h1: "acceptFriendRequest 1 ''bob'' demo_db =
     (Inr (''bob'', 2), snd (acceptFriendRequest 1 ''bob'' demo_db))"
    by (simp add: prod_eq_iff)
  have h2: "findById u_id 1 (db_users demo_db) = Some alice"
    by (simp add: findById_def demo_defs)
  have h3: "findOne_username ''bob'' (db_users demo_db) = Some bob"
    by (simp add: findOne_username_def demo_defs)
  have ids: "u_id alice = 1" "u_id bob = 2"
    by (simp_all add: demo_defs)
  from accept_links_both_friends [OF h1 h2 h3] ids
  have "\<exists>A' B'.
      findById u_id 1 (db_users (snd (acceptFriendRequest 1 ''bob'' demo_db))) = Some A' \<and>
      findById u_id 2 (db_users (snd (acceptFriendRequest 1 ''bob'' demo_db))) = Some B' \<and>
      2 \<in> set (friends A') \<and> 1 \<in> set (friends B')"
    by simp
  with h1 h2 h3 show ?thesis by blast
qed

text \<open>
  Claim C7 (request removal): for all users A and B, however many times B occurs in the
  friend requests of A, after \<^verbatim>\<open>acceptFriendRequest(A, B.username)\<close> or
  \<^verbatim>\<open>rejectFriendRequest(A, B.username)\<close> succeeds, B occurs zero times in the friend
  requests of the record that the database holds for A.
\<close>

theorem friend_requests_removed:
  assumes op: "acceptFriendRequest a uname s = (Inr r, s') \<or>
               rejectFriendRequest a uname s = (Inr r, s')"
    and A: "findById u_id a (db_users s) = Some A"
    and B: "findOne_username uname (db_users s) = Some B"
  shows "\<exists>A'. findById u_id (u_id A) (db_users s') = Some A' \<and>
           count_list (friendRequests A') (u_id B) = 0"
proof -
  let ?new = "pull (friendRequests A) (u_id B)"
  let ?ch = "assign (friendRequests A) ?new"
  have ida: "u_id A = a"
    using A by (rule findById_Some_id)
  have gone: "count_list ?new (u_id B) = 0"
    by (simp add: pull_def count_list_0_iff)
  from op show ?thesis
  proof
    assume acc: "acceptFriendRequest a uname s = (Inr r, s')"
    note s' = acceptFriendRequest_success [OF acc A B]
    have "\<exists>A'. findById u_id (u_id A) (db_users s') = Some A' \<and> friendRequests A' = ?new"
      using A ida by (simp add: s' findById_findByIdAndUpdate apply_assign)
    with gone show ?thesis
      by auto
  next
    assume rej: "rejectFriendRequest a uname s = (Inr r, s')"
    note sv = rejectFriendRequest_success [OF rej A B]
    show ?thesis
    proof (cases "?new = friendRequests A")
      case True
      then have "db_users s' = db_users s"
        using sv by (simp add: saveUser_def assign_def)
      with A ida True gone show ?thesis
        by simp
    next
      case False
      then have "?ch \<noteq> Unmodified"
        by (simp add: assign_def)
      then have "db_users s' =
          findByIdAndUpdate u_id (u_id A)
            (\<lambda>d. d\<lparr>friends := apply_change Unmodified (friends d),
                   friendRequests := apply_change ?ch (friendRequests d),
                   u_v := u_v d + 1\<rparr>) (db_users s)"
        using saveUser_Some [OF sv] by simp
      then have "\<exists>A'. findById u_id (u_id A) (db_users s') = Some A' \<and> friendRequests A' = ?new"
        using A ida by (simp add: findById_findByIdAndUpdate apply_assign)
      with gone show ?thesis
        by auto
    qed
  qed
qed

theorem friend_requests_removed_witness:
  "count_list (friendRequests alice) 2 = 2 \<and>
   findById u_id 1 (db_users demo_db) = Some alice \<and>
   findOne_username ''bob'' (db_users demo_db) = Some bob \<and>
   acceptFriendRequest 1 ''bob'' demo_db =
     (Inr (''bob'', 2), snd (acceptFriendRequest 1 ''bob'' demo_db)) \<and>
   (\<exists>A'. findById u_id 1 (db_users (snd (acceptFriendRequest 1 ''bob'' demo_db))) = Some A' \<and>
      count_list (friendRequests A') 2 = 0) \<and>
   rejectFriendRequest 1 ''bob'' demo_db =
     (Inr (''bob'', 2), snd (rejectFriendRequest 1 ''bob'' demo_db)) \<and>
   (\<exists>A'. findById u_id 1 (db_users (snd (rejectFriendRequest 1 ''bob'' demo_db))) = Some A' \<and>
      count_list (friendRequests A') 2 = 0)"
proof -
  have twice: "count_list (friendRequests alice) 2 = 2"
    by (simp add: demo_defs)
  have "fst (acceptFriendRequest 1 ''bob'' demo_db) = Inr (''bob'', 2)"
    by (simp add: acceptFriendRequest_def findById_def findOne_username_def saveUser_def
        findByIdAndUpdate_def assign_def pull_def Let_def demo_defs)
  then have h1: "acceptFriendRequest 1 ''bob'' demo_db =
     (Inr (''bob'', 2), snd (acceptFriendRequest 1 ''bob'' demo_db))"
    by (simp add: prod_eq_iff)
  have "fst (rejectFriendRequest 1 ''bob'' demo_db) = Inr (''bob'', 2)"
    by (simp add: rejectFriendRequest_def findById_def findOne_username_def saveUser_def
        findByIdAndUpdate_def assign_def pull_def Let_def demo_defs)
  then have h1': "rejectFriendRequest 1 ''bob'' demo_db =
     (Inr (''bob'', 2), snd (rejectFriendRequest 1 ''bob'' demo_db))"
    by (simp add: prod_eq_iff)
  have h2: "findById u_id 1 (db_users demo_db) = Some alice"
    by (simp add: findById_def demo_defs)
  have h3: "findOne_username ''bob'' (db_users demo_db) = Some bob"
    by (simp add: findOne_username_def demo_defs)
  have ids: "u_id alice = 1" "u_id bob = 2"
    by (simp_all add: demo_defs)
  from friend_requests_removed [OF disjI1 [OF h1] h2 h3] ids
  have a: "\<exists>A'. findById u_id 1 (db_users (snd (acceptFriendRequest 1 ''bob'' demo_db))) = Some A' \<and>
      count_list (friendRequests A') 2 = 0"
    by simp
  from friend_requests_removed [OF disjI2 [OF h1'] h2 h3] ids
  have b: "\<exists>A'. findById u_id 1 (db_users (snd (rejectFriendRequest 1 ''bob'' demo_db))) = Some A' \<and>
      count_list (friendRequests A') 2 = 0"
    by simp
  from twice h2 h3 h1 a h1' b show ?thesis by blast
qed





section \<open>Chats keep their participants\<close>

text \<open>
  Eleven of the thirteen requests leave the collection of chats as it is.
\<close>

lemma keeps_chats_unchanged:
  "db_chats (snd (sendFriendRequest a n s)) = db_chats s"
  "db_chats (snd (removeFriend a n s)) = db_chats s"
  "db_chats (snd (acceptFriendRequest a n s)) = db_chats s"
  "db_chats (snd (rejectFriendRequest a n s)) = db_chats s"
  "db_chats (snd (listRelationships a s)) = db_chats s"
  "db_chats (snd (createGroup i t n ps s)) = db_chats s"
  "db_chats (snd (addGroupMember a g u s)) = db_chats s"
  "db_chats (snd (removeGroupMember a g u s)) = db_chats s"
  "db_chats (snd (listMessages a c s)) = db_chats s"
  "db_chats (snd (getMessage m s)) = db_chats s"
  "db_chats (snd (setReadStatus m r s)) = db_chats s"
  by (simp_all add: sendFriendRequest_def removeFriend_def acceptFriendRequest_def
      rejectFriendRequest_def listRelationships_def createGroup_def addGroupMember_def
      removeGroupMember_def listMessages_def getMessage_def setReadStatus_def Let_def
      split: option.split)

text \<open>
  \<^verbatim>\<open>createChat\<close> adds a chat and touches no other; \<^verbatim>\<open>postMessage\<close> pushes on the
  messages of a chat and leaves its participants.
\<close>

lemma createChat_keeps_chat:
  assumes "findById c_id cid (db_chats s) = Some c"
  shows "findById c_id cid (db_chats (snd (createChat i a ps s))) = Some c"
  using assms
  by (auto simp: createChat_def Let_def split: option.split dest: findById_insertDoc)

lemma postMessage_keeps_participants:
  assumes "findById c_id cid (db_chats s) = Some c"
  shows "\<exists>c'. findById c_id cid (db_chats (snd (postMessage i t a x ch g s))) = Some c' \<and>
           c_participants c' = c_participants c"
  using assms
  by (auto simp: postMessage_def Let_def findById_findByIdAndUpdate split: option.split)

lemma exec_keeps_participants:
  assumes "findById c_id cid (db_chats s) = Some c"
  shows "\<exists>c'. findById c_id cid (db_chats (exec r s)) = Some c' \<and>
           c_participants c' = c_participants c"
proof (cases r)
  case (CreateChat i a ps)
  then show ?thesis
    using createChat_keeps_chat [OF assms] by simp
next
  case (PostMessage i t a x ch g)
  then show ?thesis
    using postMessage_keeps_participants [OF assms] by simp
qed (use assms in \<open>simp_all add: keeps_chats_unchanged\<close>)

lemma run_keeps_participants:
  "findById c_id cid (db_chats s) = Some c \<Longrightarrow>
   \<exists>c'. findById c_id cid (db_chats (run rs s)) = Some c' \<and>
     c_participants c' = c_participants c"
proof (induction rs arbitrary: s c)
  case Nil
  then show ?case by simp
next
  case (Cons r rs)
  from exec_keeps_participants [OF Cons.prems] obtain c1 where
    c1: "findById c_id cid (db_chats (exec r s)) = Some c1"
    and p1: "c_participants c1 = c_participants c"
    by blast
  from Cons.IH [OF c1] p1 show ?case by simp
qed

text \<open>
  Claim C8 (chat immutability): no operation changes the participants of a chat. For
  every stored chat and every sequence of requests, the chat is still stored after the
  sequence and its participants are the same; and for a chat that \<^verbatim>\<open>createChat\<close> has
  just created, they are the participants it was created with.
\<close>

theorem chat_participants_never_change:
  "(findById c_id cid (db_chats s) = Some c \<longrightarrow>
      (\<exists>c'. findById c_id cid (db_chats (run rs s)) = Some c' \<and>
         c_participants c' = c_participants c)) \<and>
   (createChat newId a ps s = (Inr c0, s0) \<longrightarrow>
      (\<exists>c'. findById c_id newId (db_chats (run rs s0)) = Some c' \<and>
         c_participants c' = ps))"
proof (intro conjI impI)
  assume "findById c_id cid (db_chats s) = Some c"
  then show "\<exists>c'. findById c_id cid (db_chats (run rs s)) = Some c' \<and>
         c_participants c' = c_participants c"
    by (rule run_keeps_participants)
next
  let ?c = "\<lparr>c_id = newId, c_participants = ps, c_messages = []\<rparr>"
  assume "createChat newId a ps s = (Inr c0, s0)"
  then have "findById c_id newId (db_chats s) = None"
    and "db_chats s0 = db_chats s @ [?c]"
    by (auto simp: createChat_def insertDoc_def Let_def split: if_splits)
  then have "findById c_id newId (db_chats s0) = Some ?c"
    by (simp add: findById_append findById_single)
  from run_keeps_participants [OF this]
  show "\<exists>c'. findById c_id newId (db_chats (run rs s0)) = Some c' \<and> c_participants c' = ps"
    by simp
qed

theorem chat_participants_never_change_witness:
  "findById c_id 10 (db_chats demo_db) = Some demo_chat \<and>
   (\<exists>c'. findById c_id 10
      (db_chats (run [PostMessage 31 5 1 ''hello'' (Some 10) None, AddGroupMember 1 20 3,
                      AcceptFriendRequest 1 ''bob'', CreateChat 11 3 [3, 1]] demo_db)) = Some c' \<and>
      c_participants c' = [1, 2]) \<and>
   createChat 11 3 [3, 1] demo_db =
     (Inr \<lparr>c_id = 11, c_participants = [3, 1], c_messages = []\<rparr>,
      demo_db\<lparr>db_chats := [demo_chat, \<lparr>c_id = 11, c_participants = [3, 1], c_messages = []\<rparr>]\<rparr>) \<and>
   (\<exists>c'. findById c_id 11
      (db_chats (run [PostMessage 32 6 3 ''hey'' (Some 11) None, RemoveFriend 3 ''alice'']
         (demo_db\<lparr>db_chats :=
            [demo_chat, \<lparr>c_id = 11, c_participants = [3, 1], c_messages = []\<rparr>]\<rparr>))) = Some c' \<and>
      c_participants c' = [3, 1])"
proof -
  have h1: "findById c_id 10 (db_chats demo_db) = Some demo_chat"
    by (simp add: findById_def demo_defs)
  have h2: "createChat 11 3 [3, 1] demo_db =
     (Inr \<lparr>c_id = 11, c_participants = [3, 1], c_messages = []\<rparr>,
      demo_db\<lparr>db_chats := [demo_chat, \<lparr>c_id = 11, c_participants = [3, 1], c_messages = []\<rparr>]\<rparr>)"
    by (simp add: createChat_def includes_id_def insertDoc_def findById_def Let_def demo_defs)
  have p: "c_participants demo_chat = [1, 2]"
    by (simp add: demo_defs)
  from chat_participants_never_change [of 10 demo_db demo_chat
      "[PostMessage 31 5 1 ''hello'' (Some 10) None, AddGroupMember 1 20 3,
        AcceptFriendRequest 1 ''bob'', CreateChat 11 3 [3, 1]]"] h1 p
  have a: "\<exists>c'. findById c_id 10
      (db_chats (run [PostMessage 31 5 1 ''hello'' (Some 10) None, AddGroupMember 1 20 3,
                      AcceptFriendRequest 1 ''bob'', CreateChat 11 3 [3, 1]] demo_db)) = Some c' \<and>
      c_participants c' = [1, 2]"
    by simp
  from chat_participants_never_change [of 10 demo_db demo_chat
       "[PostMessage 32 6 3 ''hey'' (Some 11) None, RemoveFriend 3 ''alice'']" 11 3 "[3, 1]"] h2
  have b: "\<exists>c'. findById c_id 11
      (db_chats (run [PostMessage 32 6 3 ''hey'' (Some 11) None, RemoveFriend 3 ''alice'']
         (demo_db\<lparr>db_chats :=
            [demo_chat, \<lparr>c_id = 11, c_participants = [3, 1], c_messages = []\<rparr>]\<rparr>))) = Some c' \<and>
      c_participants c' = [3, 1]"
    by blast
  from h1 a h2 b show ?thesis by blast
qed

end
